theory Spec2Isabelle
  imports Main "HOL-Library.Word" "HOL-Library.Char_ord" "HOL-Library.List_Lexorder" "HOL-Library.AList"
begin

unbundle bit_operations_syntax

section \<open>Exceptions\<close>

text \<open>
  The exception classes that the code under study raises, catches or lets through.
  \<open>ZeppDecodeError\<close>, \<open>ZeppAPIError\<close> and \<open>ZeppAuthError\<close> are the package's own
  (\<^verbatim>\<open>exceptions.py\<close>); the others are the classes of the Python runtime that the
  \<^verbatim>\<open>except\<close> clauses of the package tell apart. A computation that may raise returns
  \<open>py_exc + 'a\<close>, with \<open>Inl\<close> for the exception. \<open>NotModelled\<close> is no exception of Python: the
  example JSON parser below returns it on an input that it does not cover, and nothing is
  stated about the runtime there.
\<close>

datatype py_exc =
    ZeppDecodeError
  | ZeppAPIError
  | ZeppAuthError
  | BinasciiError
  | JSONDecodeError
  | UnicodeDecodeError
  | TypeError
  | ValueError
  | KeyError
  | AttributeError
  | OverflowError
  | RecursionError
  | NotModelled

section \<open>The runtime's base64 decoder\<close>

text \<open>
  \<^verbatim>\<open>base64.b64decode(s)\<close> as the decoders call it: with one argument, so with
  \<^verbatim>\<open>validate=False\<close>. A \<^verbatim>\<open>str\<close> argument is first encoded as ASCII (a
  \<^verbatim>\<open>ValueError\<close> when a character is not ASCII) and handed to
  \<^verbatim>\<open>binascii.a2b_base64\<close> in its non-strict mode, a loop over the characters with
  the position in the current group of four (\<open>quad_pos\<close>), the bits left over from the last
  data character (\<open>leftchar\<close>) and the number of consecutive pad characters (\<open>pads\<close>).
  Characters outside the alphabet are skipped; a pad character ends the decoding when it
  completes a group and is skipped otherwise; decoding fails with \<^verbatim>\<open>binascii.Error\<close>
  only when the input ends inside a group.

  A Python string is modelled as a \<open>string\<close>: each \<open>char\<close> is one code point below 256.
\<close>

type_synonym byte = "8 word"

definition table_a2b_base64 :: "char \<Rightarrow> byte option" where
  "table_a2b_base64 c =
     (let n = (of_char c :: nat) in
      if 65 \<le> n \<and> n \<le> 90 then Some (of_nat (n - 65))
      else if 97 \<le> n \<and> n \<le> 122 then Some (of_nat (n - 97 + 26))
      else if 48 \<le> n \<and> n \<le> 57 then Some (of_nat (n - 48 + 52))
      else if n = 43 then Some 62
      else if n = 47 then Some 63
      else None)"

fun a2b_base64 :: "string \<Rightarrow> nat \<Rightarrow> byte \<Rightarrow> nat \<Rightarrow> byte list \<Rightarrow> py_exc + byte list" where
  "a2b_base64 [] quad_pos leftchar pads out =
     (if quad_pos \<noteq> 0 then Inl BinasciiError else Inr out)"
| "a2b_base64 (c # cs) quad_pos leftchar pads out =
     (if c = CHR ''='' then
        (if quad_pos \<ge> 2 \<and> quad_pos + (pads + 1) \<ge> 4 then Inr out
         else a2b_base64 cs quad_pos leftchar (if quad_pos \<ge> 2 then pads + 1 else pads) out)
      else
        (case table_a2b_base64 c of
           None \<Rightarrow> a2b_base64 cs quad_pos leftchar pads out
         | Some this_ch \<Rightarrow>
             (if quad_pos = 0 then a2b_base64 cs 1 this_ch 0 out
              else if quad_pos = 1 then
                a2b_base64 cs 2 (this_ch AND 0x0f) 0
                  (out @ [push_bit 2 leftchar OR drop_bit 4 this_ch])
              else if quad_pos = 2 then
                a2b_base64 cs 3 (this_ch AND 0x03) 0
                  (out @ [push_bit 4 leftchar OR drop_bit 2 this_ch])
              else
                a2b_base64 cs 0 0 0 (out @ [push_bit 6 leftchar OR this_ch]))))"

definition b64decode :: "string \<Rightarrow> py_exc + byte list" where
  "b64decode s =
     (if \<exists>c \<in> set s. (of_char c :: nat) \<ge> 128 then Inl ValueError
      else a2b_base64 s 0 0 0 [])"

section \<open>Formatting of integers\<close>

text \<open>
  The decimal digits of a natural number, \<^verbatim>\<open>str\<close> of an integer (as an f-string
  renders it), and the format \<^verbatim>\<open>{n:02d}\<close> (the same as
  \<^verbatim>\<open>%02d\<close>): the digits, padded with zeros on the left to two characters at least.
\<close>

definition digit_char :: "nat \<Rightarrow> char" where
  "digit_char d = char_of (48 + d)"

function dec_str :: "nat \<Rightarrow> string" where
  "dec_str n = (if n < 10 then [digit_char n] else dec_str (n div 10) @ [digit_char (n mod 10)])"
  by pat_completeness auto
termination
  by (relation "measure id") auto

declare dec_str.simps [simp del]

definition int_str :: "int \<Rightarrow> string" where
  "int_str i = (if i < 0 then CHR ''-'' # dec_str (nat (- i)) else dec_str (nat i))"

text \<open>Reading a digit string back; used to show that the rendering loses nothing.\<close>

definition nat_of_dec :: "string \<Rightarrow> nat" where
  "nat_of_dec s = foldl (\<lambda>a c. 10 * a + (of_char c - 48)) 0 s"

definition zero_pad :: "nat \<Rightarrow> string \<Rightarrow> string" where
  "zero_pad w s = replicate (w - length s) CHR ''0'' @ s"

definition fmt_02d :: "nat \<Rightarrow> string" where
  "fmt_02d n = zero_pad 2 (dec_str n)"

section \<open>Decoders (\<^verbatim>\<open>decoders.py\<close>)\<close>

subsection \<open>Heart rate\<close>

record hr_reading =
  minute :: nat
  time :: string
  bpm :: nat

text \<open>The loop of \<^verbatim>\<open>decode_heart_rate\<close> over \<^verbatim>\<open>enumerate(hr_bytes)\<close>, from index \<open>i\<close> on.\<close>

fun hr_readings :: "nat \<Rightarrow> byte list \<Rightarrow> hr_reading list" where
  "hr_readings i [] = []"
| "hr_readings i (b # bs) =
     (if 0 < unat b \<and> unat b < 254
      then \<lparr>minute = i, time = fmt_02d (i div 60) @ '':'' @ fmt_02d (i mod 60), bpm = unat b\<rparr>
             # hr_readings (Suc i) bs
      else hr_readings (Suc i) bs)"

definition decode_heart_rate :: "string \<Rightarrow> py_exc + hr_reading list" where
  "decode_heart_rate raw_b64 =
     (case b64decode raw_b64 of
        Inl BinasciiError \<Rightarrow> Inl ZeppDecodeError
      | Inl e \<Rightarrow> Inl e
      | Inr hr_bytes \<Rightarrow> Inr (hr_readings 0 hr_bytes))"


section \<open>Coded enumerations (\<^verbatim>\<open>client.py\<close>)\<close>

text \<open>
  The two lookup tables of the client and the expression
  \<^verbatim>\<open>TABLE.get(s["mode"], f"unknown_{s['mode']}")\<close> that reads them. Mode codes are
  integers.
\<close>

definition SLEEP_STAGES :: "(int \<times> string) list" where
  "SLEEP_STAGES = [(4, ''light''), (5, ''deep''), (7, ''awake''), (8, ''rem'')]"

definition ACTIVITY_MODES :: "(int \<times> string) list" where
  "ACTIVITY_MODES =
     [(1, ''slow_walking''), (3, ''fast_walking''), (7, ''running''), (76, ''light_activity'')]"

definition sleep_stage_name :: "int \<Rightarrow> string" where
  "sleep_stage_name m =
     (case map_of SLEEP_STAGES m of Some name \<Rightarrow> name | None \<Rightarrow> ''unknown_'' @ int_str m)"

definition activity_mode_name :: "int \<Rightarrow> string" where
  "activity_mode_name m =
     (case map_of ACTIVITY_MODES m of Some name \<Rightarrow> name | None \<Rightarrow> ''unknown_'' @ int_str m)"

text \<open>
  A stage of the vendor's summary (\<^verbatim>\<open>{"start": .., "stop": .., "mode": ..}\<close>) and the
  segment that \<^verbatim>\<open>get_sleep\<close> builds from it, in the loops over
  \<^verbatim>\<open>best_sleep.get("stage", [])\<close> and \<^verbatim>\<open>best_sleep.get("odd_stage", [])\<close>.
\<close>

record raw_stage =
  start :: int
  stop :: int
  mode :: int

record stage_segment =
  start_minute :: int
  end_minute :: int
  stage_duration_minutes :: int
  stage :: string

fun stage_segments :: "raw_stage list \<Rightarrow> stage_segment list" where
  "stage_segments [] = []"
| "stage_segments (s # ss) =
     \<lparr>start_minute = start s, end_minute = stop s, stage_duration_minutes = stop s - start s,
      stage = sleep_stage_name (mode s)\<rparr> # stage_segments ss"

section \<open>The runtime's calendar\<close>

text \<open>
  The part of Python's \<^verbatim>\<open>datetime\<close> that the client and the exporter use. A naive
  \<^verbatim>\<open>datetime\<close> with whole seconds is the number of seconds from 1970-01-01T00:00:00 on
  its own clock; its calendar date is the day number \<open>secs div 86400\<close>, converted to
  year, month and day in the proleptic Gregorian calendar. A \<^verbatim>\<open>datetime\<close> exists only
  for the years 1 to 9999.
\<close>

definition days_from_civil :: "int \<Rightarrow> int \<Rightarrow> int \<Rightarrow> int" where
  "days_from_civil y m d =
     (let y' = (if m \<le> 2 then y - 1 else y);
          era = y' div 400;
          yoe = y' mod 400;
          doy = (153 * (if m > 2 then m - 3 else m + 9) + 2) div 5 + d - 1;
          doe = yoe * 365 + yoe div 4 - yoe div 100 + doy
      in era * 146097 + doe - 719468)"

definition civil_from_days :: "int \<Rightarrow> int \<times> int \<times> int" where
  "civil_from_days z =
     (let z' = z + 719468;
          era = z' div 146097;
          doe = z' mod 146097;
          yoe = (doe - doe div 1460 + doe div 36524 - doe div 146096) div 365;
          doy = doe - (365 * yoe + yoe div 4 - yoe div 100);
          mp = (5 * doy + 2) div 153;
          d = doy - (153 * mp + 2) div 5 + 1;
          m = (if mp < 10 then mp + 3 else mp - 9);
          y = yoe + era * 400
      in (if m \<le> 2 then y + 1 else y, m, d))"

definition is_leap :: "int \<Rightarrow> bool" where
  "is_leap y = (y mod 4 = 0 \<and> (y mod 100 \<noteq> 0 \<or> y mod 400 = 0))"

definition days_in_month :: "int \<Rightarrow> int \<Rightarrow> int" where
  "days_in_month y m =
     (if m = 2 then (if is_leap y then 29 else 28)
      else if m = 4 \<or> m = 6 \<or> m = 9 \<or> m = 11 then 30 else 31)"

type_synonym datetime = int

definition MINSECS :: int where
  "MINSECS = days_from_civil 1 1 1 * 86400"

definition MAXSECS :: int where
  "MAXSECS = days_from_civil 9999 12 31 * 86400 + 86399"

text \<open>\<^verbatim>\<open>dt + timedelta(seconds=n)\<close>; leaving the years 1 to 9999 is an \<^verbatim>\<open>OverflowError\<close>.\<close>

definition add_seconds :: "datetime \<Rightarrow> int \<Rightarrow> py_exc + datetime" where
  "add_seconds dt n =
     (if MINSECS \<le> dt + n \<and> dt + n \<le> MAXSECS then Inr (dt + n) else Inl OverflowError)"

text \<open>
  \<^verbatim>\<open>strftime("%Y-%m-%d")\<close> and \<^verbatim>\<open>strftime("%H:%M:%S")\<close> (the C library does not pad
  the year), and \<^verbatim>\<open>isoformat()\<close>, which writes the year with four digits.
\<close>

definition strftime_ymd :: "datetime \<Rightarrow> string" where
  "strftime_ymd dt =
     (case civil_from_days (dt div 86400) of
        (y, m, d) \<Rightarrow> dec_str (nat y) @ ''-'' @ fmt_02d (nat m) @ ''-'' @ fmt_02d (nat d))"

definition strftime_hms :: "datetime \<Rightarrow> string" where
  "strftime_hms dt =
     (let s = nat (dt mod 86400)
      in fmt_02d (s div 3600) @ '':'' @ fmt_02d (s mod 3600 div 60) @ '':'' @ fmt_02d (s mod 60))"

definition isoformat :: "datetime \<Rightarrow> string" where
  "isoformat dt =
     (case civil_from_days (dt div 86400) of
        (y, m, d) \<Rightarrow> zero_pad 4 (dec_str (nat y)) @ ''-'' @ fmt_02d (nat m) @ ''-'' @ fmt_02d (nat d)
                      @ ''T'' @ strftime_hms dt)"

text \<open>
  \<^verbatim>\<open>datetime.strptime(s, "%Y-%m-%d")\<close>. The format compiles to the regular expression
  \<^verbatim>\<open>(\d\d\d\d)-(1[0-2]|0[1-9]|[1-9])-(3[01]|[12]\d|0[1-9]|[1-9]| [1-9])\<close>, which must
  match all of \<open>s\<close>; the year 0 and a day that the month does not have are rejected. Every
  failure is a \<^verbatim>\<open>ValueError\<close>.
\<close>

definition is_digit :: "char \<Rightarrow> bool" where
  "is_digit c = (48 \<le> (of_char c :: nat) \<and> (of_char c :: nat) \<le> 57)"

definition digit_val :: "char \<Rightarrow> int" where
  "digit_val c = int (of_char c) - 48"

definition month_token :: "string \<Rightarrow> int option" where
  "month_token t =
     (case t of
        [a] \<Rightarrow> (if is_digit a \<and> a \<noteq> CHR ''0'' then Some (digit_val a) else None)
      | [a, b] \<Rightarrow>
          (if a = CHR ''1'' \<and> is_digit b \<and> digit_val b \<le> 2 then Some (10 + digit_val b)
           else if a = CHR ''0'' \<and> is_digit b \<and> b \<noteq> CHR ''0'' then Some (digit_val b)
           else None)
      | _ \<Rightarrow> None)"

definition day_token :: "string \<Rightarrow> int option" where
  "day_token t =
     (case t of
        [a] \<Rightarrow> (if is_digit a \<and> a \<noteq> CHR ''0'' then Some (digit_val a) else None)
      | [a, b] \<Rightarrow>
          (if a = CHR ''3'' \<and> is_digit b \<and> digit_val b \<le> 1 then Some (30 + digit_val b)
           else if (a = CHR ''1'' \<or> a = CHR ''2'') \<and> is_digit b
             then Some (10 * digit_val a + digit_val b)
           else if (a = CHR ''0'' \<or> a = CHR '' '') \<and> is_digit b \<and> b \<noteq> CHR ''0''
             then Some (digit_val b)
           else None)
      | _ \<Rightarrow> None)"

definition strptime_ymd :: "string \<Rightarrow> py_exc + datetime" where
  "strptime_ymd s =
     (case s of
        y1 # y2 # y3 # y4 # dash # rest \<Rightarrow>
          (if is_digit y1 \<and> is_digit y2 \<and> is_digit y3 \<and> is_digit y4 \<and> dash = CHR ''-''
              \<and> CHR ''-'' \<in> set rest then
             (let y = 1000 * digit_val y1 + 100 * digit_val y2 + 10 * digit_val y3 + digit_val y4;
                  mt = takeWhile (\<lambda>c. c \<noteq> CHR ''-'') rest;
                  dt = tl (dropWhile (\<lambda>c. c \<noteq> CHR ''-'') rest)
              in (case (month_token mt, day_token dt) of
                    (Some m, Some d) \<Rightarrow>
                      (if 1 \<le> y \<and> d \<le> days_in_month y m
                       then Inr (days_from_civil y m d * 86400) else Inl ValueError)
                  | _ \<Rightarrow> Inl ValueError))
           else Inl ValueError)
      | _ \<Rightarrow> Inl ValueError)"

text \<open>
  \<^verbatim>\<open>int(x / 60)\<close> for a whole number of seconds \<open>x\<close>: the quotient, cut towards zero.
\<close>

definition int_div_trunc :: "int \<Rightarrow> int \<Rightarrow> int" where
  "int_div_trunc a b = (if a < 0 then - ((- a) div b) else a div b)"

section \<open>Sleep (\<^verbatim>\<open>ZeppClient.get_sleep\<close>)\<close>

text \<open>
  The sleep part \<^verbatim>\<open>slp\<close> of a day's decoded summary, the summary, and a day as
  \<^verbatim>\<open>_fetch_band_data\<close> returns it. A key that may be missing is an \<open>option\<close>; every reader
  of a day, and of the numbers of \<^verbatim>\<open>slp\<close>, uses \<^verbatim>\<open>.get\<close>, which does not tell a missing key
  from the value \<^verbatim>\<open>None\<close>. The keys \<^verbatim>\<open>slp\<close>, \<^verbatim>\<open>stage\<close> and \<^verbatim>\<open>odd_stage\<close> are read in
  ways that do tell them apart, so for them \<open>None\<close> is the missing key, \<open>Some None\<close> the key
  with the value \<^verbatim>\<open>null\<close>, and \<open>Some (Some x)\<close> the key with the value \<open>x\<close>. \<open>'j\<close> is the type
  of a decoded summary.
\<close>

record slp_raw =
  st :: "int option"
  ed :: "int option"
  stage_list :: "raw_stage list option option"
  odd_stage :: "raw_stage list option option"
  rhr :: "int option"
  ss :: "int option"
  dp :: "int option"
  lt :: "int option"

record summary_raw =
  slp :: "slp_raw option option"

record 'j band_day =
  day_date :: "string option"
  summary :: "'j option"
  heart_rate :: "hr_reading list option"
  heart_rate_raw :: "nat list option"
  activity_bytes_length :: "nat option"

record sleep_result =
  wake_date :: string
  fetched_from :: "string option"
  resting_hr :: "int option"
  sleep_score :: "int option"
  deep_minutes :: "int option"
  light_minutes :: "int option"
  stages :: "stage_segment list"
  nap_stages :: "stage_segment list"
  sleep_start :: "string option"
  sleep_end :: "string option"
  duration_minutes :: "int option"

text \<open>\<^verbatim>\<open>not slp.get(k)\<close> for an integer field: the key is missing, or its value is 0.\<close>

definition falsy :: "int option \<Rightarrow> bool" where
  "falsy v = (case v of None \<Rightarrow> True | Some n \<Rightarrow> n = 0)"


text \<open>
  The rest of \<^verbatim>\<open>get_sleep\<close>, which builds the record from the accepted session. The loops
  over \<^verbatim>\<open>best_sleep.get("stage", [])\<close> and \<^verbatim>\<open>best_sleep.get("odd_stage", [])\<close> come first;
  the default is used for a missing key only, and a loop over \<^verbatim>\<open>None\<close> raises a
  \<^verbatim>\<open>TypeError\<close>.
\<close>

definition stage_loop :: "raw_stage list option option \<Rightarrow> py_exc + stage_segment list" where
  "stage_loop v =
     (case v of
        None \<Rightarrow> Inr []
      | Some None \<Rightarrow> Inl TypeError
      | Some (Some l) \<Rightarrow> Inr (stage_segments l))"

definition sleep_record ::
  "(int \<Rightarrow> py_exc + datetime) \<Rightarrow> string \<Rightarrow> slp_raw \<Rightarrow> string option \<Rightarrow> py_exc + sleep_result" where
  "sleep_record fromtimestamp date best_sleep best_source_date =
     (case stage_loop (stage_list best_sleep) of
        Inl e \<Rightarrow> Inl e
      | Inr stages_v \<Rightarrow>
          (case stage_loop (odd_stage best_sleep) of
             Inl e \<Rightarrow> Inl e
           | Inr nap_stages_v \<Rightarrow>
               (let result = \<lparr>wake_date = date, fetched_from = best_source_date,
                               resting_hr = rhr best_sleep, sleep_score = ss best_sleep,
                               deep_minutes = dp best_sleep, light_minutes = lt best_sleep,
                               stages = stages_v, nap_stages = nap_stages_v,
                               sleep_start = None, sleep_end = None, duration_minutes = None\<rparr>
                in if \<not> falsy (st best_sleep) \<and> \<not> falsy (ed best_sleep) then
                     (case fromtimestamp (the (st best_sleep)) of
                        Inl e \<Rightarrow> Inl e
                      | Inr start_dt \<Rightarrow>
                          (case fromtimestamp (the (ed best_sleep)) of
                             Inl e \<Rightarrow> Inl e
                           | Inr end_dt \<Rightarrow>
                               Inr (result\<lparr>sleep_start := Some (isoformat start_dt),
                                           sleep_end := Some (isoformat end_dt),
                                           duration_minutes :=
                                             Some (int_div_trunc (end_dt - start_dt) 60)\<rparr>)))
                   else Inr result)))"



text \<open>
  The session that the loop reads from a day: none when the day has no summary, the
  summary has no \<^verbatim>\<open>slp\<close>, or \<^verbatim>\<open>slp\<close> lacks a start or an end (the conditions of the two
  \<^verbatim>\<open>continue\<close> statements); the day on which the loop raises, because \<^verbatim>\<open>slp\<close> is
  \<^verbatim>\<open>null\<close>; and the test that the session of a day ends on the date asked for.
\<close>

definition session_of :: "summary_raw band_day \<Rightarrow> slp_raw option" where
  "session_of day =
     (case summary day of
        None \<Rightarrow> None
      | Some sm \<Rightarrow>
          (case slp sm of
             Some (Some sl) \<Rightarrow> (if falsy (ed sl) \<or> falsy (st sl) then None else Some sl)
           | _ \<Rightarrow> None))"

definition slp_null :: "summary_raw band_day \<Rightarrow> bool" where
  "slp_null day = (case summary day of None \<Rightarrow> False | Some sm \<Rightarrow> slp sm = Some None)"








section \<open>Export to Apple Health XML (\<^verbatim>\<open>export.py\<close>)\<close>

text \<open>
  A date-time with a fixed offset from UTC, here the local date-time and the offset in
  hours. \<^verbatim>\<open>timezone(timedelta(hours=h))\<close> exists only for an offset strictly between
  \<open>-24\<close> and \<open>24\<close> hours; \<^verbatim>\<open>%z\<close> writes the offset as a sign, two digits of hours and two
  of minutes.
\<close>

type_synonym aware_datetime = "datetime \<times> int"

definition timezone_hours :: "int \<Rightarrow> py_exc + int" where
  "timezone_hours h = (if - 24 < h \<and> h < 24 then Inr h else Inl ValueError)"

definition utcoffset_str :: "int \<Rightarrow> string" where
  "utcoffset_str h = (if h < 0 then ''-'' else ''+'') @ fmt_02d (nat \<bar>h\<bar>) @ ''00''"

definition apple_date :: "aware_datetime \<Rightarrow> string" where
  "apple_date dt =
     strftime_ymd (fst dt) @ '' '' @ strftime_hms (fst dt) @ '' '' @ utcoffset_str (snd dt)"

definition minute_to_datetime :: "string \<Rightarrow> int \<Rightarrow> int \<Rightarrow> py_exc + aware_datetime" where
  "minute_to_datetime date_str minute_of_day tz_offset_hours =
     (case timezone_hours tz_offset_hours of
        Inl e \<Rightarrow> Inl e
      | Inr tz \<Rightarrow>
          (case strptime_ymd date_str of
             Inl e \<Rightarrow> Inl e
           | Inr base \<Rightarrow>
               (case add_seconds base (60 * minute_of_day) of
                  Inl e \<Rightarrow> Inl e
                | Inr dt \<Rightarrow> Inr (dt, tz))))"

definition ZEPP_TO_APPLE_SLEEP :: "(string \<times> string) list" where
  "ZEPP_TO_APPLE_SLEEP =
     [(''light'', ''HKCategoryValueSleepAnalysisAsleepCore''),
      (''deep'', ''HKCategoryValueSleepAnalysisAsleepDeep''),
      (''rem'', ''HKCategoryValueSleepAnalysisAsleepREM''),
      (''awake'', ''HKCategoryValueSleepAnalysisAwake'')]"

text \<open>A \<^verbatim>\<open>Record\<close> element with its attributes; \<open>unit\<close> is set on quantity records only.\<close>

record xml_record =
  rec_type :: string
  sourceName :: string
  unit :: "string option"
  rec_value :: string
  startDate :: string
  endDate :: string

text \<open>
  The dictionaries that the exporter reads. Of a day's steps it reads \<^verbatim>\<open>total_steps\<close>; of
  a sleep session the keys \<^verbatim>\<open>stages\<close>, \<^verbatim>\<open>fetched_from\<close>, \<^verbatim>\<open>start\<close> and \<^verbatim>\<open>end\<close>. A key
  that is missing is \<open>None\<close>; \<^verbatim>\<open>fetched_from\<close> may also be present with the value
  \<^verbatim>\<open>None\<close> (\<open>Some None\<close>), as \<^verbatim>\<open>get_sleep\<close> writes it for a day without a date. An empty
  dictionary has every key missing.
\<close>

record steps_dict =
  total_steps :: "int option"

record sleep_dict =
  stages_key :: "stage_segment list option"
  fetched_from_key :: "string option option"
  start_key :: "string option"
  end_key :: "string option"

definition sleep_dict_of :: "sleep_result option \<Rightarrow> sleep_dict" where
  "sleep_dict_of res =
     (case res of
        None \<Rightarrow> \<lparr>stages_key = None, fetched_from_key = None, start_key = None, end_key = None\<rparr>
      | Some r \<Rightarrow> \<lparr>stages_key = Some (stages r), fetched_from_key = Some (fetched_from r),
                    start_key = sleep_start r, end_key = sleep_end r\<rparr>)"

text \<open>
  Running a loop body over a list, in order: the records of all rounds, or the first
  exception.
\<close>

fun collect :: "('a \<Rightarrow> py_exc + 'b list) \<Rightarrow> 'a list \<Rightarrow> py_exc + 'b list" where
  "collect f [] = Inr []"
| "collect f (x # xs) =
     (case f x of
        Inl e \<Rightarrow> Inl e
      | Inr ys \<Rightarrow> (case collect f xs of Inl e \<Rightarrow> Inl e | Inr zs \<Rightarrow> Inr (ys @ zs)))"

definition hr_record :: "string \<Rightarrow> int \<Rightarrow> string \<Rightarrow> hr_reading \<Rightarrow> py_exc + xml_record list" where
  "hr_record source_name tz_offset_hours date_str r =
     (case minute_to_datetime date_str (int (minute r)) tz_offset_hours of
        Inl e \<Rightarrow> Inl e
      | Inr dt \<Rightarrow>
          Inr [\<lparr>rec_type = ''HKQuantityTypeIdentifierHeartRate'', sourceName = source_name,
                unit = Some ''count/min'', rec_value = dec_str (bpm r),
                startDate = apple_date dt, endDate = apple_date dt\<rparr>])"

definition steps_record :: "string \<Rightarrow> int \<Rightarrow> string \<times> steps_dict \<Rightarrow> py_exc + xml_record list" where
  "steps_record source_name tz_offset_hours item =
     (case item of (date_str, steps) \<Rightarrow>
        (if falsy (total_steps steps) then Inr []
         else
           (case minute_to_datetime date_str 0 tz_offset_hours of
              Inl e \<Rightarrow> Inl e
            | Inr day_start \<Rightarrow>
                (case minute_to_datetime date_str 1439 tz_offset_hours of
                   Inl e \<Rightarrow> Inl e
                 | Inr day_end \<Rightarrow>
                     Inr [\<lparr>rec_type = ''HKQuantityTypeIdentifierStepCount'', sourceName = source_name,
                           unit = Some ''count'', rec_value = int_str (the (total_steps steps)),
                           startDate = apple_date day_start, endDate = apple_date day_end\<rparr>]))))"

text \<open>
  The body of the loop over \<^verbatim>\<open>sleep["stages"]\<close>. \<open>source_date\<close> is the value of
  \<^verbatim>\<open>sleep.get("fetched_from", date_str)\<close>; parsing \<^verbatim>\<open>None\<close> as a date is a
  \<^verbatim>\<open>TypeError\<close>.
\<close>

definition stage_record ::
  "string \<Rightarrow> int \<Rightarrow> string option \<Rightarrow> stage_segment \<Rightarrow> py_exc + xml_record list" where
  "stage_record source_name tz_offset_hours source_date sg =
     (case map_of ZEPP_TO_APPLE_SLEEP (stage sg) of
        None \<Rightarrow> Inr []
      | Some apple_value \<Rightarrow>
          (case source_date of
             None \<Rightarrow> Inl TypeError
           | Some sd \<Rightarrow>
               (case minute_to_datetime sd (start_minute sg) tz_offset_hours of
                  Inl e \<Rightarrow> Inl e
                | Inr start_dt \<Rightarrow>
                    (case minute_to_datetime sd (end_minute sg) tz_offset_hours of
                       Inl e \<Rightarrow> Inl e
                     | Inr end_dt \<Rightarrow>
                         Inr [\<lparr>rec_type = ''HKCategoryTypeIdentifierSleepAnalysis'',
                               sourceName = source_name, unit = None, rec_value = apple_value,
                               startDate = apple_date start_dt, endDate = apple_date end_dt\<rparr>]))))"

text \<open>
  The \<^verbatim>\<open>InBed\<close> record of a session. \<^verbatim>\<open>datetime.fromisoformat\<close> is a parameter (the
  forms it accepts differ between versions of the runtime); the zone of its result is
  replaced by the configured one.
\<close>

definition truthy_str :: "string option \<Rightarrow> bool" where
  "truthy_str v = (case v of None \<Rightarrow> False | Some s \<Rightarrow> s \<noteq> [])"

definition inbed_record ::
  "(string \<Rightarrow> py_exc + datetime) \<Rightarrow> string \<Rightarrow> int \<Rightarrow> sleep_dict \<Rightarrow> py_exc + xml_record list" where
  "inbed_record fromisoformat source_name tz sleep =
     (if truthy_str (start_key sleep) \<and> truthy_str (end_key sleep) then
        (case fromisoformat (the (start_key sleep)) of
           Inl e \<Rightarrow> Inl e
         | Inr start_dt \<Rightarrow>
             (case fromisoformat (the (end_key sleep)) of
                Inl e \<Rightarrow> Inl e
              | Inr end_dt \<Rightarrow>
                  Inr [\<lparr>rec_type = ''HKCategoryTypeIdentifierSleepAnalysis'',
                        sourceName = source_name, unit = None,
                        rec_value = ''HKCategoryValueSleepAnalysisInBed'',
                        startDate = apple_date (start_dt, tz), endDate = apple_date (end_dt, tz)\<rparr>]))
      else Inr [])"

definition sleep_records ::
  "(string \<Rightarrow> py_exc + datetime) \<Rightarrow> string \<Rightarrow> int \<Rightarrow> string \<times> sleep_dict \<Rightarrow> py_exc + xml_record list" where
  "sleep_records fromisoformat source_name tz_offset_hours item =
     (case item of (date_str, sleep) \<Rightarrow>
        (case stages_key sleep of
           None \<Rightarrow> Inr []
         | Some [] \<Rightarrow> Inr []
         | Some sts \<Rightarrow>
             (let source_date = (case fetched_from_key sleep of None \<Rightarrow> Some date_str | Some v \<Rightarrow> v)
              in case collect (stage_record source_name tz_offset_hours source_date) sts of
                   Inl e \<Rightarrow> Inl e
                 | Inr stage_recs \<Rightarrow>
                     (case inbed_record fromisoformat source_name tz_offset_hours sleep of
                        Inl e \<Rightarrow> Inl e
                      | Inr inbed \<Rightarrow> Inr (stage_recs @ inbed)))))"

text \<open>
  \<^verbatim>\<open>export_apple_health\<close>: the records in the order in which they are added to the root
  element, and the three counts that are returned. Each argument dictionary is the list
  of its items (\<^verbatim>\<open>None\<close> and the empty dictionary are the empty list), which
  \<^verbatim>\<open>sorted\<close> orders by date string. Writing the file is left out.
\<close>

definition export_apple_health ::
  "(string \<Rightarrow> py_exc + datetime) \<Rightarrow> (string \<times> hr_reading list) list \<Rightarrow> (string \<times> steps_dict) list
     \<Rightarrow> (string \<times> sleep_dict) list \<Rightarrow> string \<Rightarrow> int
     \<Rightarrow> py_exc + xml_record list \<times> nat \<times> nat \<times> nat" where
  "export_apple_health fromisoformat heart_rate_data steps_data sleep_data source_name tz_offset_hours =
     (case timezone_hours tz_offset_hours of
        Inl e \<Rightarrow> Inl e
      | Inr tz \<Rightarrow>
          (case collect (\<lambda>(date_str, readings).
                   collect (hr_record source_name tz_offset_hours date_str) readings)
                  (sort_key fst heart_rate_data) of
             Inl e \<Rightarrow> Inl e
           | Inr hr \<Rightarrow>
               (case collect (steps_record source_name tz_offset_hours) (sort_key fst steps_data) of
                  Inl e \<Rightarrow> Inl e
                | Inr sp \<Rightarrow>
                    (case collect (sleep_records fromisoformat source_name tz_offset_hours)
                            (sort_key fst sleep_data) of
                       Inl e \<Rightarrow> Inl e
                     | Inr sl \<Rightarrow> Inr (hr @ sp @ sl, length hr, length sp, length sl)))))"

text \<open>
  A parser for the form that \<^verbatim>\<open>isoformat\<close> writes for whole seconds,
  \<^verbatim>\<open>YYYY-MM-DDTHH:MM:SS\<close>, which every version of \<^verbatim>\<open>fromisoformat\<close> accepts; used to run
  the exporter on examples.
\<close>

definition two_digits :: "char \<Rightarrow> char \<Rightarrow> int option" where
  "two_digits a b = (if is_digit a \<and> is_digit b then Some (10 * digit_val a + digit_val b) else None)"

definition fromisoformat_seconds :: "string \<Rightarrow> py_exc + datetime" where
  "fromisoformat_seconds s =
     (case s of
        [y1, y2, y3, y4, d1, m1, m2, d2, a1, a2, t, h1, h2, c1, n1, n2, c2, s1, s2] \<Rightarrow>
          (if is_digit y1 \<and> is_digit y2 \<and> is_digit y3 \<and> is_digit y4 \<and> d1 = CHR ''-'' \<and> d2 = CHR ''-''
              \<and> t = CHR ''T'' \<and> c1 = CHR '':'' \<and> c2 = CHR '':'' then
             (case (two_digits m1 m2, two_digits a1 a2, two_digits h1 h2, two_digits n1 n2, two_digits s1 s2) of
                (Some m, Some d, Some hh, Some mm, Some sec) \<Rightarrow>
                  (let y = 1000 * digit_val y1 + 100 * digit_val y2 + 10 * digit_val y3 + digit_val y4
                   in if 1 \<le> y \<and> 1 \<le> m \<and> m \<le> 12 \<and> 1 \<le> d \<and> d \<le> days_in_month y m
                         \<and> hh < 24 \<and> mm < 60 \<and> sec < 60
                      then Inr (days_from_civil y m d * 86400 + hh * 3600 + mm * 60 + sec)
                      else Inl ValueError)
              | _ \<Rightarrow> Inl ValueError)
           else Inl ValueError)
      | _ \<Rightarrow> Inl ValueError)"

text \<open>
  Example data: the session of the exporter's test (four classified stages, fetched from
  the day before), with a fifth stage whose code is not in the table.
\<close>

definition example_sleep :: sleep_dict where
  "example_sleep =
     \<lparr>stages_key = Some
        [\<lparr>start_minute = 1410, end_minute = 1440, stage_duration_minutes = 30, stage = ''light''\<rparr>,
         \<lparr>start_minute = 1440, end_minute = 1470, stage_duration_minutes = 30, stage = ''deep''\<rparr>,
         \<lparr>start_minute = 1470, end_minute = 1490, stage_duration_minutes = 20, stage = ''rem''\<rparr>,
         \<lparr>start_minute = 1490, end_minute = 1500, stage_duration_minutes = 10, stage = ''awake''\<rparr>,
         \<lparr>start_minute = 1500, end_minute = 1510, stage_duration_minutes = 10, stage = ''unknown_9''\<rparr>],
      fetched_from_key = Some (Some ''2026-02-05''),
      start_key = Some ''2026-02-05T23:30:00'', end_key = Some ''2026-02-06T07:15:00''\<rparr>"

definition sleep_analysis :: "string \<Rightarrow> string \<Rightarrow> string \<Rightarrow> xml_record" where
  "sleep_analysis v s e =
     \<lparr>rec_type = ''HKCategoryTypeIdentifierSleepAnalysis'', sourceName = ''zepp-export'',
      unit = None, rec_value = v, startDate = s, endDate = e\<rparr>"


section \<open>JSON values and the runtime's JSON parser\<close>

text \<open>
  The values of a decoded JSON document, as Python holds them: \<^verbatim>\<open>None\<close>, a truth value,
  an integer, a float (kept as the text of its literal: nothing here computes with
  floats), a string, a list, and a dictionary as the list of its items in insertion order.
\<close>

datatype json =
    JNull
  | JBool bool
  | JInt int
  | JFloat string
  | JStr string
  | JArr "json list"
  | JObj "(string \<times> json) list"

















section \<open>Decoders of JSON payloads (\<^verbatim>\<open>decoders.py\<close>)\<close>




text \<open>
  The base64 encoding of a byte sequence (RFC 4648): every three bytes give four
  characters of the alphabet, six bits each; one or two bytes left over give two or three
  characters and pad characters up to four.
\<close>

definition b64_char :: "byte \<Rightarrow> char" where
  "b64_char v =
     (let n = unat v in
      if n < 26 then char_of (65 + n)
      else if n < 52 then char_of (97 + (n - 26))
      else if n < 62 then char_of (48 + (n - 52))
      else if n = 62 then CHR ''+''
      else CHR ''/'')"

fun spec_b64encode :: "byte list \<Rightarrow> string" where
  "spec_b64encode (a # b # c # r) =
     [b64_char (drop_bit 2 a),
      b64_char (push_bit 4 (take_bit 2 a) OR drop_bit 4 b),
      b64_char (push_bit 2 (take_bit 4 b) OR drop_bit 6 c),
      b64_char (take_bit 6 c)] @ spec_b64encode r"
| "spec_b64encode [a, b] =
     [b64_char (drop_bit 2 a),
      b64_char (push_bit 4 (take_bit 2 a) OR drop_bit 4 b),
      b64_char (push_bit 2 (take_bit 4 b)),
      CHR ''='']"
| "spec_b64encode [a] =
     [b64_char (drop_bit 2 a), b64_char (push_bit 4 (take_bit 2 a)), CHR ''='', CHR ''='']"
| "spec_b64encode [] = []"

section \<open>Band data (\<^verbatim>\<open>ZeppClient._fetch_band_data\<close>)\<close>









section \<open>Stress (\<^verbatim>\<open>ZeppClient.get_stress\<close>)\<close>

text \<open>
  \<^verbatim>\<open>int(v)\<close> for a value \<open>v\<close> of a decoded document: a whole number is returned as it is, a
  truth value is 0 or 1, and \<^verbatim>\<open>None\<close>, a list and a dictionary raise a \<^verbatim>\<open>TypeError\<close>. The
  conversion of a float (truncation; an error for \<^verbatim>\<open>NaN\<close> and the infinities) and of a
  string (parsing) is the parameter \<open>conv\<close>.
\<close>

definition py_int :: "(json \<Rightarrow> py_exc + int) \<Rightarrow> json \<Rightarrow> py_exc + int" where
  "py_int conv v =
     (case v of
        JInt n \<Rightarrow> Inr n
      | JBool b \<Rightarrow> Inr (if b then 1 else 0)
      | JNull \<Rightarrow> Inl TypeError
      | JArr xs \<Rightarrow> Inl TypeError
      | JObj kvs \<Rightarrow> Inl TypeError
      | _ \<Rightarrow> conv v)"

text \<open>\<^verbatim>\<open>int(item[k]) if k in item else None\<close>, and \<^verbatim>\<open>int(item.get(k, 0))\<close>.\<close>

definition int_if_present :: "(json \<Rightarrow> py_exc + int) \<Rightarrow> json option \<Rightarrow> py_exc + int option" where
  "int_if_present conv v =
     (case v of
        None \<Rightarrow> Inr None
      | Some x \<Rightarrow> (case py_int conv x of Inl e \<Rightarrow> Inl e | Inr n \<Rightarrow> Inr (Some n)))"

definition int_or_zero :: "(json \<Rightarrow> py_exc + int) \<Rightarrow> json option \<Rightarrow> py_exc + int" where
  "int_or_zero conv v = py_int conv (case v of None \<Rightarrow> JInt 0 | Some x \<Rightarrow> x)"


record stress_record =
  record_timestamp :: "json option"
  avg_stress :: "int option"
  max_stress :: "int option"
  min_stress :: "int option"
  relaxed :: int
  normal :: int
  medium :: int
  high :: int
  readings :: json











section \<open>Properties of the number formats\<close>

lemma of_char_digit_char: "d < 10 \<Longrightarrow> (of_char (digit_char d) :: nat) = 48 + d"
  unfolding digit_char_def by simp

lemma dec_str_small: "n < 10 \<Longrightarrow> dec_str n = [digit_char n]"
  by (subst dec_str.simps) simp

lemma dec_str_big: "\<not> n < 10 \<Longrightarrow> dec_str n = dec_str (n div 10) @ [digit_char (n mod 10)]"
  by (subst dec_str.simps) simp

lemma nat_of_dec_snoc: "nat_of_dec (s @ [c]) = 10 * nat_of_dec s + (of_char c - 48)"
  by (simp add: nat_of_dec_def)

lemma nat_of_dec_str: "nat_of_dec (dec_str n) = n"
proof (induction n rule: dec_str.induct)
  case (1 n)
  show ?case
  proof (cases "n < 10")
    case True
    then show ?thesis by (simp add: dec_str_small nat_of_dec_def of_char_digit_char)
  next
    case False
    then have "nat_of_dec (dec_str (n div 10)) = n div 10" using 1 by simp
    moreover have "dec_str n = dec_str (n div 10) @ [digit_char (n mod 10)]"
      using False by (rule dec_str_big)
    ultimately show ?thesis
      by (simp add: nat_of_dec_snoc of_char_digit_char)
  qed
qed

lemma dec_str_inj: "dec_str m = dec_str n \<Longrightarrow> m = n"
proof -
  assume "dec_str m = dec_str n"
  then have "nat_of_dec (dec_str m) = nat_of_dec (dec_str n)" by (rule arg_cong)
  then show "m = n" by (simp only: nat_of_dec_str)
qed

lemma dec_str_digits:
  "dec_str n \<noteq> [] \<and> (\<forall>c \<in> set (dec_str n). 48 \<le> (of_char c :: nat) \<and> (of_char c :: nat) \<le> 57)"
proof (induction n rule: dec_str.induct)
  case (1 n)
  show ?case
  proof (cases "n < 10")
    case True
    then show ?thesis by (simp add: dec_str_small of_char_digit_char)
  next
    case False
    then have ih: "dec_str (n div 10) \<noteq> [] \<and>
        (\<forall>c \<in> set (dec_str (n div 10)). 48 \<le> (of_char c :: nat) \<and> (of_char c :: nat) \<le> 57)"
      using 1 by simp
    have e: "dec_str n = dec_str (n div 10) @ [digit_char (n mod 10)]"
      using False by (rule dec_str_big)
    show ?thesis unfolding e using ih by (simp add: of_char_digit_char)
  qed
qed

lemma dec_str_not_minus: "dec_str n \<noteq> CHR ''-'' # s"
proof
  assume h: "dec_str n = CHR ''-'' # s"
  have "CHR ''-'' \<in> set (dec_str n)" by (simp add: h)
  then have "48 \<le> (of_char CHR ''-'' :: nat)" using dec_str_digits by blast
  then show False by simp
qed

lemma int_str_inj: "int_str a = int_str b \<Longrightarrow> a = b"
proof -
  assume eq: "int_str a = int_str b"
  show ?thesis
  proof (cases "a < 0")
    case an: True
    show ?thesis
    proof (cases "b < 0")
      case True
      then have "dec_str (nat (- a)) = dec_str (nat (- b))" using eq an by (simp add: int_str_def)
      then have "nat (- a) = nat (- b)" by (rule dec_str_inj)
      then show ?thesis using an True by simp
    next
      case False
      then have "dec_str (nat b) = CHR ''-'' # dec_str (nat (- a))" using eq an by (simp add: int_str_def)
      then show ?thesis using dec_str_not_minus by blast
    qed
  next
    case ap: False
    show ?thesis
    proof (cases "b < 0")
      case True
      then have "dec_str (nat a) = CHR ''-'' # dec_str (nat (- b))" using eq ap by (simp add: int_str_def)
      then show ?thesis using dec_str_not_minus by blast
    next
      case False
      then have "dec_str (nat a) = dec_str (nat b)" using eq ap by (simp add: int_str_def)
      then have "nat a = nat b" by (rule dec_str_inj)
      then show ?thesis using ap False by simp
    qed
  qed
qed

section \<open>Heart-rate decoding\<close>

lemma hr_readings_index:
  "hr_readings i bs =
     map (\<lambda>k. \<lparr>minute = i + k, time = fmt_02d ((i + k) div 60) @ '':'' @ fmt_02d ((i + k) mod 60),
                bpm = unat (bs ! k)\<rparr>)
       (filter (\<lambda>k. 0 < unat (bs ! k) \<and> unat (bs ! k) < 254) [0..<length bs])"
proof (induction bs arbitrary: i)
  case Nil
  then show ?case by simp
next
  case (Cons b bs)
  have upt: "[0..<length (b # bs)] = 0 # map Suc [0..<length bs]"
    by (simp add: upt_conv_Cons map_Suc_upt del: upt_Suc)
  show ?case
    unfolding upt by (simp add: Cons.IH filter_map comp_def)
qed

text \<open>
  Claim C5. Whatever byte sequence the base64 text decodes to, \<open>decode_heart_rate\<close> returns
  one sample for each index \<open>i\<close> whose byte \<open>v\<close> satisfies \<open>0 < v < 254\<close>, and no other; the
  samples come in ascending order of \<open>i\<close>, with \<open>minute = i\<close>, \<open>bpm = v\<close> and the time written
  as \<open>i div 60\<close> and \<open>i mod 60\<close>, each padded with zeros to two digits, around a colon. The
  ten bytes 0, 0, 0, 72, 75, 0, 0, 80, 0, 65 (in base64: \<open>AAAASEsAAFAAQQ==\<close>) give exactly
  the four samples at minutes 3, 4, 7 and 9.
\<close>

theorem decode_heart_rate_samples:
  "(\<forall>raw_b64 hr_bytes. b64decode raw_b64 = Inr hr_bytes \<longrightarrow>
      decode_heart_rate raw_b64 =
        Inr (map (\<lambda>i. \<lparr>minute = i, time = fmt_02d (i div 60) @ '':'' @ fmt_02d (i mod 60),
                         bpm = unat (hr_bytes ! i)\<rparr>)
              (filter (\<lambda>i. 0 < unat (hr_bytes ! i) \<and> unat (hr_bytes ! i) < 254)
                 [0..<length hr_bytes])))
   \<and> b64decode ''AAAASEsAAFAAQQ=='' = Inr [0, 0, 0, 72, 75, 0, 0, 80, 0, 65]
   \<and> decode_heart_rate ''AAAASEsAAFAAQQ=='' =
        Inr [\<lparr>minute = 3, time = ''00:03'', bpm = 72\<rparr>, \<lparr>minute = 4, time = ''00:04'', bpm = 75\<rparr>,
             \<lparr>minute = 7, time = ''00:07'', bpm = 80\<rparr>, \<lparr>minute = 9, time = ''00:09'', bpm = 65\<rparr>]"
proof (intro conjI allI impI)
  fix raw_b64 hr_bytes
  assume "b64decode raw_b64 = Inr hr_bytes"
  then show "decode_heart_rate raw_b64 =
        Inr (map (\<lambda>i. \<lparr>minute = i, time = fmt_02d (i div 60) @ '':'' @ fmt_02d (i mod 60),
                         bpm = unat (hr_bytes ! i)\<rparr>)
              (filter (\<lambda>i. 0 < unat (hr_bytes ! i) \<and> unat (hr_bytes ! i) < 254)
                 [0..<length hr_bytes]))"
    using hr_readings_index[of 0 hr_bytes] by (simp add: decode_heart_rate_def)
next
  show "b64decode ''AAAASEsAAFAAQQ=='' = Inr [0, 0, 0, 72, 75, 0, 0, 80, 0, 65]"
    by code_simp
next
  show "decode_heart_rate ''AAAASEsAAFAAQQ=='' =
        Inr [\<lparr>minute = 3, time = ''00:03'', bpm = 72\<rparr>, \<lparr>minute = 4, time = ''00:04'', bpm = 75\<rparr>,
             \<lparr>minute = 7, time = ''00:07'', bpm = 80\<rparr>, \<lparr>minute = 9, time = ''00:09'', bpm = 65\<rparr>]"
    by code_simp
qed

theorem decode_heart_rate_samples_witness:
  "b64decode ''AEj/'' = Inr [0, 72, 255]
   \<and> decode_heart_rate ''AEj/'' = Inr [\<lparr>minute = 1, time = ''00:01'', bpm = 72\<rparr>]"
proof -
  have d: "b64decode ''AEj/'' = Inr [0, 72, 255]" by code_simp
  have f: "filter (\<lambda>i. 0 < unat ([0, 72, 255 :: byte] ! i) \<and> unat ([0, 72, 255 :: byte] ! i) < 254)
             [0..<length [0, 72, 255 :: byte]] = [1]"
    by code_simp
  have t: "fmt_02d (1 div 60) @ '':'' @ fmt_02d (1 mod 60) = ''00:01''" by code_simp
  from decode_heart_rate_samples d
  have "decode_heart_rate ''AEj/'' =
        Inr (map (\<lambda>i. \<lparr>minute = i, time = fmt_02d (i div 60) @ '':'' @ fmt_02d (i mod 60),
                         bpm = unat ([0, 72, 255 :: byte] ! i)\<rparr>)
              (filter (\<lambda>i. 0 < unat ([0, 72, 255 :: byte] ! i) \<and> unat ([0, 72, 255 :: byte] ! i) < 254)
                 [0..<length [0, 72, 255 :: byte]]))"
    by blast
  then have "decode_heart_rate ''AEj/'' = Inr [\<lparr>minute = 1, time = ''00:01'', bpm = 72\<rparr>]"
    unfolding f using t by simp
  with d show ?thesis by simp
qed

section \<open>Coded enumerations\<close>

lemma map_of_SLEEP_STAGES:
  "map_of SLEEP_STAGES m =
     (if m = 4 then Some ''light'' else if m = 5 then Some ''deep''
      else if m = 7 then Some ''awake'' else if m = 8 then Some ''rem'' else None)"
  by (simp add: SLEEP_STAGES_def)

lemma map_of_ACTIVITY_MODES:
  "map_of ACTIVITY_MODES m =
     (if m = 1 then Some ''slow_walking'' else if m = 3 then Some ''fast_walking''
      else if m = 7 then Some ''running'' else if m = 76 then Some ''light_activity'' else None)"
  by (simp add: ACTIVITY_MODES_def)

lemma sleep_stage_name_inj: "sleep_stage_name a = sleep_stage_name b \<Longrightarrow> a = b"
  by (auto simp add: sleep_stage_name_def map_of_SLEEP_STAGES split: if_splits dest: int_str_inj)

lemma activity_mode_name_inj: "activity_mode_name a = activity_mode_name b \<Longrightarrow> a = b"
  by (auto simp add: activity_mode_name_def map_of_ACTIVITY_MODES split: if_splits dest: int_str_inj)

lemma stage_segments_map:
  "stage_segments rs =
     map (\<lambda>s. \<lparr>start_minute = start s, end_minute = stop s, stage_duration_minutes = stop s - start s,
                stage = sleep_stage_name (mode s)\<rparr>) rs"
  by (induction rs) simp_all

text \<open>
  Claim C6. The sleep stage codes 4, 5, 7 and 8 are named \<open>light\<close>, \<open>deep\<close>, \<open>awake\<close> and
  \<open>rem\<close>; every other code \<open>m\<close> is named \<open>unknown_\<close> followed by the decimal text of
  \<open>m\<close>. No two codes share a name, so the code can be read back from the name, and every
  raw stage of a session yields one segment, named by its code: nothing is dropped and
  no code raises. The activity modes 1, 3, 7 and 76 are named \<open>slow_walking\<close>,
  \<open>fast_walking\<close>, \<open>running\<close> and \<open>light_activity\<close>, with the same rule for the others.
\<close>

theorem stage_codes_lossless:
  "sleep_stage_name 4 = ''light'' \<and> sleep_stage_name 5 = ''deep''
   \<and> sleep_stage_name 7 = ''awake'' \<and> sleep_stage_name 8 = ''rem''
   \<and> (\<forall>m. m \<notin> {4, 5, 7, 8} \<longrightarrow> sleep_stage_name m = ''unknown_'' @ int_str m)
   \<and> (\<forall>a b. sleep_stage_name a = sleep_stage_name b \<longrightarrow> a = b)
   \<and> (\<forall>rs. map stage (stage_segments rs) = map (\<lambda>s. sleep_stage_name (mode s)) rs)
   \<and> activity_mode_name 1 = ''slow_walking'' \<and> activity_mode_name 3 = ''fast_walking''
   \<and> activity_mode_name 7 = ''running'' \<and> activity_mode_name 76 = ''light_activity''
   \<and> (\<forall>m. m \<notin> {1, 3, 7, 76} \<longrightarrow> activity_mode_name m = ''unknown_'' @ int_str m)
   \<and> (\<forall>a b. activity_mode_name a = activity_mode_name b \<longrightarrow> a = b)"
proof -
  have s: "sleep_stage_name 4 = ''light'' \<and> sleep_stage_name 5 = ''deep''
   \<and> sleep_stage_name 7 = ''awake'' \<and> sleep_stage_name 8 = ''rem''"
    by (simp add: sleep_stage_name_def map_of_SLEEP_STAGES)
  have su: "\<forall>m. m \<notin> {4, 5, 7, 8} \<longrightarrow> sleep_stage_name m = ''unknown_'' @ int_str m"
    by (simp add: sleep_stage_name_def map_of_SLEEP_STAGES)
  have si: "\<forall>a b. sleep_stage_name a = sleep_stage_name b \<longrightarrow> a = b"
    using sleep_stage_name_inj by blast
  have sm: "\<forall>rs. map stage (stage_segments rs) = map (\<lambda>s. sleep_stage_name (mode s)) rs"
    by (simp add: stage_segments_map comp_def)
  have a: "activity_mode_name 1 = ''slow_walking'' \<and> activity_mode_name 3 = ''fast_walking''
   \<and> activity_mode_name 7 = ''running'' \<and> activity_mode_name 76 = ''light_activity''"
    by (simp add: activity_mode_name_def map_of_ACTIVITY_MODES)
  have au: "\<forall>m. m \<notin> {1, 3, 7, 76} \<longrightarrow> activity_mode_name m = ''unknown_'' @ int_str m"
    by (simp add: activity_mode_name_def map_of_ACTIVITY_MODES)
  have ai: "\<forall>a b. activity_mode_name a = activity_mode_name b \<longrightarrow> a = b"
    using activity_mode_name_inj by blast
  from s su si sm a au ai show ?thesis by blast
qed

lemma int_str_9: "int_str 9 = ''9''" by code_simp
lemma int_str_m2: "int_str (- 2) = ''-2''" by code_simp

theorem stage_codes_lossless_witness:
  "(9::int) \<notin> {4, 5, 7, 8} \<and> sleep_stage_name 9 = ''unknown_9''
   \<and> (- 2 :: int) \<notin> {1, 3, 7, 76} \<and> activity_mode_name (- 2) = ''unknown_-2''
   \<and> sleep_stage_name 4 = sleep_stage_name (2 + 2)
   \<and> activity_mode_name 7 = activity_mode_name (3 + 4)"
proof -
  have "sleep_stage_name 9 = ''unknown_'' @ int_str 9"
    using stage_codes_lossless by simp
  moreover have "activity_mode_name (- 2) = ''unknown_'' @ int_str (- 2)"
    using stage_codes_lossless by simp
  ultimately show ?thesis by (simp add: int_str_9 int_str_m2)
qed

section \<open>Sleep reconciliation\<close>



lemma session_of_not_null: "session_of day = Some sl \<Longrightarrow> \<not> slp_null day"
  by (auto simp add: session_of_def slp_null_def split: option.splits if_splits)












lemma sleep_record_null_stage:
  "stage_list sl = Some None \<or> odd_stage sl = Some None \<Longrightarrow>
     sleep_record fromtimestamp date sl src = Inl TypeError"
  by (auto simp add: sleep_record_def stage_loop_def split: sum.splits option.splits)



section \<open>Evaluation on examples\<close>

lemma digit_char_simps:
  "digit_char 0 = CHR ''0''" "digit_char 1 = CHR ''1''" "digit_char 2 = CHR ''2''"
  "digit_char 3 = CHR ''3''" "digit_char 4 = CHR ''4''" "digit_char 5 = CHR ''5''"
  "digit_char 6 = CHR ''6''" "digit_char 7 = CHR ''7''" "digit_char 8 = CHR ''8''"
  "digit_char 9 = CHR ''9''" "digit_char (Suc 0) = CHR ''1''"
  by code_simp+

lemmas fmt_eval = fmt_02d_def zero_pad_def dec_str_small dec_str_big digit_char_simps

lemma civil_from_days_examples:
  "civil_from_days 20489 = (2026, 2, 5)" "civil_from_days 20490 = (2026, 2, 6)"
  "civil_from_days 20491 = (2026, 2, 7)"
  by code_simp+

lemma strptime_ymd_examples:
  "strptime_ymd ''2026-02-05'' = Inr 1770249600" "strptime_ymd ''2026-02-06'' = Inr 1770336000"
  by code_simp+















section \<open>Duration of a session\<close>







section \<open>Export of sleep sessions\<close>

lemma map_of_ZEPP_TO_APPLE_SLEEP:
  "map_of ZEPP_TO_APPLE_SLEEP s =
     (if s = ''light'' then Some ''HKCategoryValueSleepAnalysisAsleepCore''
      else if s = ''deep'' then Some ''HKCategoryValueSleepAnalysisAsleepDeep''
      else if s = ''rem'' then Some ''HKCategoryValueSleepAnalysisAsleepREM''
      else if s = ''awake'' then Some ''HKCategoryValueSleepAnalysisAwake''
      else None)"
  by (simp add: ZEPP_TO_APPLE_SLEEP_def)

lemma collect_Cons_Inr:
  "collect f (x # xs) = Inr rs \<Longrightarrow> \<exists>ys zs. f x = Inr ys \<and> collect f xs = Inr zs \<and> rs = ys @ zs"
  by (auto split: sum.splits)


lemma stage_record_values:
  "collect (stage_record source_name tz source_date) sts = Inr recs \<Longrightarrow>
     map rec_value recs =
       map (\<lambda>sg. the (map_of ZEPP_TO_APPLE_SLEEP (stage sg)))
         (filter (\<lambda>sg. map_of ZEPP_TO_APPLE_SLEEP (stage sg) \<noteq> None) sts)"
proof (induction sts arbitrary: recs)
  case Nil
  then show ?case by simp
next
  case (Cons sg sts)
  from collect_Cons_Inr[OF Cons.prems] obtain ys zs
    where h: "stage_record source_name tz source_date sg = Inr ys"
      "collect (stage_record source_name tz source_date) sts = Inr zs" "recs = ys @ zs" by blast
  have "map rec_value ys = (case map_of ZEPP_TO_APPLE_SLEEP (stage sg) of None \<Rightarrow> [] | Some v \<Rightarrow> [v])"
    using h(1) by (auto simp add: stage_record_def split: option.splits sum.splits)
  then show ?case using Cons.IH[OF h(2)] h(3) by (auto split: option.splits)
qed


lemma inbed_record_present:
  "truthy_str (start_key sleep) \<Longrightarrow> truthy_str (end_key sleep) \<Longrightarrow>
   inbed_record fromisoformat source_name tz sleep = Inr recs \<Longrightarrow>
     \<exists>start_dt end_dt. fromisoformat (the (start_key sleep)) = Inr start_dt
        \<and> fromisoformat (the (end_key sleep)) = Inr end_dt
        \<and> recs = [\<lparr>rec_type = ''HKCategoryTypeIdentifierSleepAnalysis'', sourceName = source_name,
                     unit = None, rec_value = ''HKCategoryValueSleepAnalysisInBed'',
                     startDate = apple_date (start_dt, tz), endDate = apple_date (end_dt, tz)\<rparr>]"
  by (auto simp add: inbed_record_def split: sum.splits)

lemma inbed_record_absent:
  "\<not> (truthy_str (start_key sleep) \<and> truthy_str (end_key sleep)) \<Longrightarrow>
     inbed_record fromisoformat source_name tz sleep = Inr []"
  by (auto simp add: inbed_record_def)

lemma sleep_records_nonempty:
  "stages_key sleep = Some sts \<Longrightarrow> sts \<noteq> [] \<Longrightarrow>
   sleep_records fromisoformat source_name tz (date_str, sleep) = Inr recs \<Longrightarrow>
     \<exists>stage_recs inbed.
        collect (stage_record source_name tz
                  (case fetched_from_key sleep of None \<Rightarrow> Some date_str | Some v \<Rightarrow> v)) sts = Inr stage_recs
      \<and> inbed_record fromisoformat source_name tz sleep = Inr inbed
      \<and> recs = stage_recs @ inbed"
  by (cases sts) (auto simp add: sleep_records_def Let_def split: sum.splits)

lemma sleep_records_skipped:
  "stages_key sleep = None \<or> stages_key sleep = Some [] \<Longrightarrow>
     sleep_records fromisoformat source_name tz (date_str, sleep) = Inr []"
  by (auto simp add: sleep_records_def)

text \<open>
  Claim C3, as amended. A stage is exported when its name is in the table
  light to AsleepCore, deep to AsleepDeep, rem to AsleepREM, awake to Awake, and left
  out otherwise. A session whose stage list is not empty and that has a start and an
  end yields, when the export succeeds, one record for each stage in the table, in
  order, and then one InBed record: N + 1 records for N stages in the table. A session
  whose stage list is missing or empty yields no record at all, not even the InBed
  record. The sleep count that is returned is the number of these records.
\<close>

theorem sleep_session_records:
  "(\<forall>s. map_of ZEPP_TO_APPLE_SLEEP s =
          (if s = ''light'' then Some ''HKCategoryValueSleepAnalysisAsleepCore''
           else if s = ''deep'' then Some ''HKCategoryValueSleepAnalysisAsleepDeep''
           else if s = ''rem'' then Some ''HKCategoryValueSleepAnalysisAsleepREM''
           else if s = ''awake'' then Some ''HKCategoryValueSleepAnalysisAwake''
           else None))
   \<and> (\<forall>fromisoformat source_name tz date_str sleep sts recs.
         stages_key sleep = Some sts \<longrightarrow> sts \<noteq> [] \<longrightarrow>
         truthy_str (start_key sleep) \<longrightarrow> truthy_str (end_key sleep) \<longrightarrow>
         sleep_records fromisoformat source_name tz (date_str, sleep) = Inr recs \<longrightarrow>
           map rec_value recs =
             map (\<lambda>sg. the (map_of ZEPP_TO_APPLE_SLEEP (stage sg)))
               (filter (\<lambda>sg. stage sg \<in> {''light'', ''deep'', ''rem'', ''awake''}) sts)
             @ [''HKCategoryValueSleepAnalysisInBed'']
         \<and> length recs =
             length (filter (\<lambda>sg. stage sg \<in> {''light'', ''deep'', ''rem'', ''awake''}) sts) + 1)
   \<and> (\<forall>fromisoformat source_name tz date_str sleep.
         stages_key sleep = None \<or> stages_key sleep = Some [] \<longrightarrow>
         sleep_records fromisoformat source_name tz (date_str, sleep) = Inr [])
   \<and> (\<forall>fromisoformat heart_rate_data steps_data sleep_data source_name tz recs hr_count steps_count sleep_count.
         export_apple_health fromisoformat heart_rate_data steps_data sleep_data source_name tz =
           Inr (recs, hr_count, steps_count, sleep_count) \<longrightarrow>
         (\<exists>sleep_recs. collect (sleep_records fromisoformat source_name tz) (sort_key fst sleep_data)
                          = Inr sleep_recs \<and> sleep_count = length sleep_recs))"
proof (intro conjI allI impI)
  fix s show "map_of ZEPP_TO_APPLE_SLEEP s =
          (if s = ''light'' then Some ''HKCategoryValueSleepAnalysisAsleepCore''
           else if s = ''deep'' then Some ''HKCategoryValueSleepAnalysisAsleepDeep''
           else if s = ''rem'' then Some ''HKCategoryValueSleepAnalysisAsleepREM''
           else if s = ''awake'' then Some ''HKCategoryValueSleepAnalysisAwake''
           else None)"
    by (rule map_of_ZEPP_TO_APPLE_SLEEP)
next
  fix fromisoformat :: "string \<Rightarrow> py_exc + datetime" and source_name tz date_str sleep sts recs
  assume a: "stages_key sleep = Some sts" "sts \<noteq> []" "truthy_str (start_key sleep)"
    "truthy_str (end_key sleep)" "sleep_records fromisoformat source_name tz (date_str, sleep) = Inr recs"
  have flt: "(\<lambda>sg. map_of ZEPP_TO_APPLE_SLEEP (stage sg) \<noteq> None)
           = (\<lambda>sg. stage sg \<in> {''light'', ''deep'', ''rem'', ''awake''})"
    by (rule ext) (simp add: map_of_ZEPP_TO_APPLE_SLEEP)
  from sleep_records_nonempty[OF a(1,2,5)] obtain stage_recs inbed where
    h: "collect (stage_record source_name tz
                  (case fetched_from_key sleep of None \<Rightarrow> Some date_str | Some v \<Rightarrow> v)) sts = Inr stage_recs"
      "inbed_record fromisoformat source_name tz sleep = Inr inbed" "recs = stage_recs @ inbed" by blast
  from inbed_record_present[OF a(3,4) h(2)]
  have ib: "map rec_value inbed = [''HKCategoryValueSleepAnalysisInBed'']" by auto
  show v: "map rec_value recs =
             map (\<lambda>sg. the (map_of ZEPP_TO_APPLE_SLEEP (stage sg)))
               (filter (\<lambda>sg. stage sg \<in> {''light'', ''deep'', ''rem'', ''awake''}) sts)
             @ [''HKCategoryValueSleepAnalysisInBed'']"
    using stage_record_values[OF h(1)] ib h(3) unfolding flt by simp
  have "length recs = length (map rec_value recs)" by simp
  also have "\<dots> = length (filter (\<lambda>sg. stage sg \<in> {''light'', ''deep'', ''rem'', ''awake''}) sts) + 1"
    unfolding v by simp
  finally show "length recs =
             length (filter (\<lambda>sg. stage sg \<in> {''light'', ''deep'', ''rem'', ''awake''}) sts) + 1" .
next
  fix fromisoformat :: "string \<Rightarrow> py_exc + datetime" and source_name tz date_str
    and sleep :: sleep_dict
  assume "stages_key sleep = None \<or> stages_key sleep = Some []"
  then show "sleep_records fromisoformat source_name tz (date_str, sleep) = Inr []"
    by (rule sleep_records_skipped)
next
  fix fromisoformat :: "string \<Rightarrow> py_exc + datetime"
    and heart_rate_data steps_data sleep_data source_name tz recs hr_count steps_count sleep_count
  assume "export_apple_health fromisoformat heart_rate_data steps_data sleep_data source_name tz =
           Inr (recs, hr_count, steps_count, sleep_count)"
  then show "\<exists>sleep_recs. collect (sleep_records fromisoformat source_name tz) (sort_key fst sleep_data)
                          = Inr sleep_recs \<and> sleep_count = length sleep_recs"
    by (auto simp add: export_apple_health_def split: sum.splits)
qed

lemma fromisoformat_seconds_examples:
  "fromisoformat_seconds ''2026-02-05T23:30:00'' = Inr 1770334200"
  "fromisoformat_seconds ''2026-02-06T07:15:00'' = Inr 1770362100"
  by code_simp+

lemma utcoffset_str_m6: "utcoffset_str (- 6) = ''-0600''"
  by (simp add: utcoffset_str_def fmt_eval)

lemmas export_eval = sleep_records_def stage_record_def inbed_record_def minute_to_datetime_def
  timezone_hours_def add_seconds_def MINSECS_def MAXSECS_def days_from_civil_def apple_date_def
  strftime_ymd_def strftime_hms_def utcoffset_str_m6 truthy_str_def map_of_ZEPP_TO_APPLE_SLEEP
  strptime_ymd_examples civil_from_days_examples fromisoformat_seconds_examples fmt_eval

lemma sleep_records_example:
  "sleep_records fromisoformat_seconds ''zepp-export'' (- 6) (''2026-02-06'', example_sleep) =
     Inr [sleep_analysis ''HKCategoryValueSleepAnalysisAsleepCore''
            ''2026-02-05 23:30:00 -0600'' ''2026-02-06 00:00:00 -0600'',
          sleep_analysis ''HKCategoryValueSleepAnalysisAsleepDeep''
            ''2026-02-06 00:00:00 -0600'' ''2026-02-06 00:30:00 -0600'',
          sleep_analysis ''HKCategoryValueSleepAnalysisAsleepREM''
            ''2026-02-06 00:30:00 -0600'' ''2026-02-06 00:50:00 -0600'',
          sleep_analysis ''HKCategoryValueSleepAnalysisAwake''
            ''2026-02-06 00:50:00 -0600'' ''2026-02-06 01:00:00 -0600'',
          sleep_analysis ''HKCategoryValueSleepAnalysisInBed''
            ''2026-02-05 23:30:00 -0600'' ''2026-02-06 07:15:00 -0600'']"
  by (simp add: example_sleep_def sleep_analysis_def export_eval)

lemma export_example:
  "export_apple_health fromisoformat_seconds [] [] [(''2026-02-06'', example_sleep)] ''zepp-export'' (- 6) =
     Inr ([sleep_analysis ''HKCategoryValueSleepAnalysisAsleepCore''
            ''2026-02-05 23:30:00 -0600'' ''2026-02-06 00:00:00 -0600'',
          sleep_analysis ''HKCategoryValueSleepAnalysisAsleepDeep''
            ''2026-02-06 00:00:00 -0600'' ''2026-02-06 00:30:00 -0600'',
          sleep_analysis ''HKCategoryValueSleepAnalysisAsleepREM''
            ''2026-02-06 00:30:00 -0600'' ''2026-02-06 00:50:00 -0600'',
          sleep_analysis ''HKCategoryValueSleepAnalysisAwake''
            ''2026-02-06 00:50:00 -0600'' ''2026-02-06 01:00:00 -0600'',
          sleep_analysis ''HKCategoryValueSleepAnalysisInBed''
            ''2026-02-05 23:30:00 -0600'' ''2026-02-06 07:15:00 -0600''], 0, 0, 5)"
  by (simp add: export_apple_health_def timezone_hours_def sleep_records_example)

theorem sleep_session_records_witness:
  "sleep_records fromisoformat_seconds ''zepp-export'' (- 6) (''2026-02-06'', example_sleep) =
     Inr [sleep_analysis ''HKCategoryValueSleepAnalysisAsleepCore''
            ''2026-02-05 23:30:00 -0600'' ''2026-02-06 00:00:00 -0600'',
          sleep_analysis ''HKCategoryValueSleepAnalysisAsleepDeep''
            ''2026-02-06 00:00:00 -0600'' ''2026-02-06 00:30:00 -0600'',
          sleep_analysis ''HKCategoryValueSleepAnalysisAsleepREM''
            ''2026-02-06 00:30:00 -0600'' ''2026-02-06 00:50:00 -0600'',
          sleep_analysis ''HKCategoryValueSleepAnalysisAwake''
            ''2026-02-06 00:50:00 -0600'' ''2026-02-06 01:00:00 -0600'',
          sleep_analysis ''HKCategoryValueSleepAnalysisInBed''
            ''2026-02-05 23:30:00 -0600'' ''2026-02-06 07:15:00 -0600'']
   \<and> length (filter (\<lambda>sg. stage sg \<in> {''light'', ''deep'', ''rem'', ''awake''})
               (the (stages_key example_sleep))) + 1 = 5
   \<and> truthy_str (start_key example_sleep) \<and> truthy_str (end_key example_sleep)
   \<and> stages_key (example_sleep\<lparr>stages_key := None\<rparr>) = None
   \<and> sleep_records fromisoformat_seconds ''zepp-export'' (- 6)
         (''2026-02-06'', example_sleep\<lparr>stages_key := None\<rparr>) = Inr []
   \<and> (\<exists>sleep_recs. collect (sleep_records fromisoformat_seconds ''zepp-export'' (- 6))
          (sort_key fst [(''2026-02-06'', example_sleep)]) = Inr sleep_recs \<and> 5 = length sleep_recs)"
proof -
  note t = sleep_session_records
  have st: "stages_key example_sleep = Some (the (stages_key example_sleep))"
    "the (stages_key example_sleep) \<noteq> []"
    "truthy_str (start_key example_sleep)" "truthy_str (end_key example_sleep)"
    by (simp_all add: example_sleep_def truthy_str_def)
  from t[THEN conjunct2, THEN conjunct1, rule_format, OF st sleep_records_example]
  have n: "length (filter (\<lambda>sg. stage sg \<in> {''light'', ''deep'', ''rem'', ''awake''})
               (the (stages_key example_sleep))) + 1 = 5" by simp
  have e: "sleep_records fromisoformat_seconds ''zepp-export'' (- 6)
         (''2026-02-06'', example_sleep\<lparr>stages_key := None\<rparr>) = Inr []"
    by (rule t[THEN conjunct2, THEN conjunct2, THEN conjunct1, rule_format]) simp
  note c = t[THEN conjunct2, THEN conjunct2, THEN conjunct2, rule_format, OF export_example]
  from sleep_records_example n st(3,4) e c show ?thesis by simp
qed

text \<open>
  Claim C3 as it is worded fails for a session without stages: with a start and an end
  that are valid it yields no record, where the claim counts 0 + 1, the InBed record.
\<close>

theorem inbed_without_stages_counterexample:
  "fromisoformat_seconds ''2026-02-05T23:30:00'' = Inr 1770334200
   \<and> fromisoformat_seconds ''2026-02-06T07:15:00'' = Inr 1770362100
   \<and> export_apple_health fromisoformat_seconds [] []
        [(''2026-02-06'',
          \<lparr>stages_key = Some [], fetched_from_key = Some (Some ''2026-02-05''),
           start_key = Some ''2026-02-05T23:30:00'', end_key = Some ''2026-02-06T07:15:00''\<rparr>)]
        ''zepp-export'' (- 6) = Inr ([], 0, 0, 0)"
  by (simp add: fromisoformat_seconds_examples export_apple_health_def timezone_hours_def
        sleep_records_def)

section \<open>Timestamps of the exported records\<close>





















section \<open>Decoding of summaries\<close>


















lemma enc_ex: "spec_b64encode [123, 125] = ''e30=''" "spec_b64encode [110, 111] = ''bm8=''"
  by code_simp+







section \<open>Decoding of stress data\<close>






section \<open>Decode failures in the band data\<close>


















section \<open>Stress records\<close>

















lemma py_int_null:
  "py_int conv JNull = Inl TypeError" "int_if_present conv (Some JNull) = Inl TypeError"
  "int_or_zero conv (Some JNull) = Inl TypeError"
  by (simp_all add: py_int_def int_if_present_def int_or_zero_def)







end
